theory Spec2Isabelle
  imports Complex_Main "HOL-Library.Multiset"
begin

section \<open>Python values and the file system seen by the lister\<close>

text \<open>
  The lister is the class \<open>CodebaseLister\<close> of \<open>codebaselister/main.py\<close>. Its methods
  talk to the file system through \<open>os.walk\<close>, \<open>open\<close> and \<open>os.path\<close>, and to the
  third-party \<open>pathspec\<close> package. Exceptions are values: a class and the text that
  \<open>str(e)\<close> gives. Only the exceptions that \<open>open\<close>, \<open>read\<close>, indexing and \<open>len\<close> raise by
  themselves are modelled; all of them derive from Python's \<open>Exception\<close>. Signals delivered
  from outside (such as a keyboard interrupt) are not part of the model.
  A Python string is a \<open>string\<close>; one list element stands for one character, and \<open>len\<close> is
  \<open>length\<close>.
\<close>

datatype exn_class =
  FileNotFoundError | PermissionError | IsADirectoryError | UnicodeDecodeError
  | OSError | TypeError | IndexError

datatype exn = Exn exn_class string

fun exn_class_of :: "exn \<Rightarrow> exn_class" where
  "exn_class_of (Exn c m) = c"

fun exn_str :: "exn \<Rightarrow> string" where
  "exn_str (Exn c m) = m"

text \<open>
  A directory as \<open>os.scandir\<close> enumerates it: the entries in the order the operating system
  hands them out. A \<open>File\<close> is any entry that is not a directory, a \<open>Dir\<close> carries its own
  entries. A directory that cannot be scanned yields nothing in \<open>os.walk\<close> (errors are
  dropped there), and a symbolic link to a directory is listed but not followed: both
  contribute no file, exactly like an empty directory, and appear here with no entries.
\<close>

datatype node = File string | Dir string "node list"

record filesystem =
  tree :: "node list"
  open_read :: "string \<Rightarrow> exn + string"
  open_write :: "string \<Rightarrow> exn option"

text \<open>
  \<open>tree fs\<close> are the entries of the base path; \<open>open_read fs p\<close> is the outcome of
  \<open>open(p, 'r')\<close> followed by reading the whole text; \<open>open_write fs p\<close> is the exception
  that \<open>open(p, 'w')\<close> raises, if any.
\<close>

record config =
  base_path :: string
  use_gitignore :: bool
  output_filename :: string

text \<open>
  \<open>__init__\<close>: a missing or empty output name is replaced by the time-stamped default;
  \<open>stamp\<close> is the text of \<open>datetime.now().strftime('%Y%m%d_%H%M%S')\<close>.
\<close>

definition init :: "string \<Rightarrow> bool \<Rightarrow> string option \<Rightarrow> string \<Rightarrow> config" where
  "init base gitignore_flag requested stamp =
     \<lparr>base_path = base, use_gitignore = gitignore_flag,
      output_filename =
        (case requested of
           None \<Rightarrow> ''listing_'' @ stamp @ ''.txt''
         | Some n \<Rightarrow> if n = [] then ''listing_'' @ stamp @ ''.txt'' else n)\<rparr>"

text \<open>\<open>os.path.join\<close> on two components (POSIX).\<close>

definition path_join :: "string \<Rightarrow> string \<Rightarrow> string" where
  "path_join a b =
     (if b \<noteq> [] \<and> hd b = CHR ''/'' then b
      else if a = [] \<or> last a = CHR ''/'' then a @ b
      else a @ ''/'' @ b)"

fun file_names :: "node list \<Rightarrow> string list" where
  "file_names [] = []"
| "file_names (File n # rest) = n # file_names rest"
| "file_names (Dir n sub # rest) = file_names rest"

fun dir_names :: "node list \<Rightarrow> string list" where
  "dir_names [] = []"
| "dir_names (File n # rest) = dir_names rest"
| "dir_names (Dir n sub # rest) = n # dir_names rest"

text \<open>
  \<open>os.walk(dir)\<close>, top-down: the triple of the directory itself first, then the walk of
  each sub-directory in enumeration order.
\<close>

fun os_walk :: "string \<Rightarrow> node list \<Rightarrow> (string \<times> string list \<times> string list) list"
  and walk_subdirs :: "string \<Rightarrow> node list \<Rightarrow> (string \<times> string list \<times> string list) list"
where
  "os_walk dir entries =
     (dir, dir_names entries, file_names entries) # walk_subdirs dir entries"
| "walk_subdirs dir [] = []"
| "walk_subdirs dir (File n # rest) = walk_subdirs dir rest"
| "walk_subdirs dir (Dir n sub # rest) =
     os_walk (path_join dir n) sub @ walk_subdirs dir rest"

text \<open>
  The files below a directory, stated without reference to the traversal: an entry of the
  directory itself, or a file below one of its sub-directories.
\<close>

inductive file_under :: "string \<Rightarrow> node list \<Rightarrow> string \<Rightarrow> bool" where
  here: "File n \<in> set entries \<Longrightarrow> file_under dir entries (path_join dir n)"
| below: "Dir d sub \<in> set entries \<Longrightarrow> file_under (path_join dir d) sub p
          \<Longrightarrow> file_under dir entries p"

text \<open>
  Two enumerations of one directory tree: the same entries at every level, in any order.
  Entries are exchanged two at a time; a directory keeps its name and its own entries may
  be enumerated in another order as well.
\<close>

inductive same_node :: "node \<Rightarrow> node \<Rightarrow> bool"
  and same_entries :: "node list \<Rightarrow> node list \<Rightarrow> bool" where
  same_file: "same_node (File n) (File n)"
| same_dir: "same_entries sub sub' \<Longrightarrow> same_node (Dir n sub) (Dir n sub')"
| same_nil: "same_entries [] []"
| same_cons: "same_node x y \<Longrightarrow> same_entries xs ys \<Longrightarrow> same_entries (x # xs) (y # ys)"
| same_swap: "same_entries (x # y # zs) (y # x # zs)"
| same_trans: "same_entries xs ys \<Longrightarrow> same_entries ys zs \<Longrightarrow> same_entries xs zs"

section \<open>The ignore-pattern matcher\<close>

text \<open>
  The matcher is \<open>pathspec.PathSpec\<close> with the \<open>gitwildmatch\<close> syntax. The package is not
  part of the repository: the lister only calls \<open>PathSpec.from_lines\<close> and
  \<open>spec.match_file\<close>. The definitions of this section follow the description of the
  PatternSet component in the specification.
\<close>

text \<open>Modelled from the spec: the pieces of one glob pattern (\<open>*\<close>, \<open>?\<close>, \<open>[...]\<close>, \<open>**\<close>
  and literal characters); the pattern syntax of \<open>pathspec\<close> is missing from the sources.\<close>

datatype glob_token =
  Lit char | Any_char | Char_class string | Star | Double_star

text \<open>Modelled from the spec: an IgnoreRule, "one raw pattern line, possibly negated,
  possibly anchored, possibly directory-only"; the rule type of \<open>pathspec\<close> is missing.\<close>

record ignore_rule =
  negated :: bool
  dir_only :: bool
  anchored :: bool
  glob :: "glob_token list"

text \<open>Modelled from the spec: reading a pattern into its pieces; a bracket expression
  runs up to the next closing bracket, and a bracket that is never closed stands for
  itself. The pattern parser of \<open>pathspec\<close> is missing.\<close>

function tokenize :: "string \<Rightarrow> glob_token list" where
  "tokenize [] = []"
| "tokenize (c # cs) =
     (if c = CHR ''*'' then
        (case cs of
           [] \<Rightarrow> [Star]
         | d # ds \<Rightarrow> if d = CHR ''*'' then Double_star # tokenize ds
                     else Star # tokenize cs)
      else if c = CHR ''?'' then Any_char # tokenize cs
      else if c = CHR ''['' \<and> CHR '']'' \<in> set cs then
        Char_class (takeWhile (\<lambda>d. d \<noteq> CHR '']'') cs)
          # tokenize (tl (dropWhile (\<lambda>d. d \<noteq> CHR '']'') cs))
      else Lit c # tokenize cs)"
  by pat_completeness auto
termination
  by (relation "measure length")
     (auto simp: less_Suc_eq_le intro!: order_trans [OF diff_le_self length_dropWhile_le])

text \<open>Modelled from the spec: membership in a bracket expression, "shell glob" style:
  single characters and ranges \<open>a-z\<close>, negated by a leading \<open>!\<close>; never the separator.
  The pattern matcher of \<open>pathspec\<close> is missing.\<close>

fun in_class :: "string \<Rightarrow> char \<Rightarrow> bool" where
  "in_class (lo # m # hi # rest) c =
     (if m = CHR ''-''
      then ((of_char lo :: nat) \<le> of_char c \<and> (of_char c :: nat) \<le> of_char hi)
           \<or> in_class rest c
      else lo = c \<or> in_class (m # hi # rest) c)"
| "in_class (a # rest) c = (a = c \<or> in_class rest c)"
| "in_class [] c = False"

definition class_match :: "string \<Rightarrow> char \<Rightarrow> bool" where
  "class_match body c =
     (c \<noteq> CHR ''/'' \<and>
      (case body of
         [] \<Rightarrow> False
       | b # bs \<Rightarrow> if b = CHR ''!'' then \<not> in_class bs c else in_class body c))"

text \<open>Modelled from the spec: "\<open>*\<close>, \<open>?\<close>, \<open>[...]\<close> behave as shell glob wildcards within a
  path segment; \<open>**\<close> matches across segment boundaries". The pattern matcher of
  \<open>pathspec\<close> is missing.\<close>

fun glob_match :: "glob_token list \<Rightarrow> string \<Rightarrow> bool" where
  "glob_match [] s = (s = [])"
| "glob_match (Lit c # ts) [] = False"
| "glob_match (Lit c # ts) (d # ds) = (c = d \<and> glob_match ts ds)"
| "glob_match (Any_char # ts) [] = False"
| "glob_match (Any_char # ts) (d # ds) = (d \<noteq> CHR ''/'' \<and> glob_match ts ds)"
| "glob_match (Char_class body # ts) [] = False"
| "glob_match (Char_class body # ts) (d # ds) = (class_match body d \<and> glob_match ts ds)"
| "glob_match (Star # ts) [] = glob_match ts []"
| "glob_match (Star # ts) (d # ds) =
     (glob_match ts (d # ds) \<or> (d \<noteq> CHR ''/'' \<and> glob_match (Star # ts) ds))"
| "glob_match (Double_star # ts) [] = glob_match ts []"
| "glob_match (Double_star # ts) (d # ds) =
     (glob_match ts (d # ds) \<or> glob_match (Double_star # ts) ds)"

text \<open>Modelled from the spec: one line of the rule source. "Blank lines and lines starting
  with \<open>#\<close> are ignored", "a leading \<open>!\<close> negates the rule", "a trailing \<open>/\<close> restricts the
  rule to directories", a leading \<open>/\<close> anchors it to the root. The rule parser of
  \<open>pathspec\<close> is missing.\<close>

definition parse_rule :: "string \<Rightarrow> ignore_rule option" where
  "parse_rule line =
     (if filter (\<lambda>c. c \<noteq> CHR '' '') line = [] \<or> hd line = CHR ''#'' then None
      else
        let neg = (hd line = CHR ''!'');
            l1 = (if neg then tl line else line);
            dir = (l1 \<noteq> [] \<and> last l1 = CHR ''/'');
            l2 = (if dir then butlast l1 else l1);
            anch = (l2 \<noteq> [] \<and> hd l2 = CHR ''/'');
            l3 = (if anch then tl l2 else l2)
        in Some \<lparr>negated = neg, dir_only = dir, anchored = anch, glob = tokenize l3\<rparr>)"

text \<open>Modelled from the spec: \<open>compile\<close>, called \<open>PathSpec.from_lines\<close> by the lister: the
  rules of the lines in file order. The constructor of \<open>pathspec\<close> is missing.\<close>

definition from_lines :: "string list \<Rightarrow> ignore_rule list" where
  "from_lines lines = List.map_filter parse_rule lines"

text \<open>Modelled from the spec: the places of a path where a pattern "without a leading
  \<open>/\<close> may match at any depth": the path itself and what follows each separator.\<close>

fun after_separators :: "string \<Rightarrow> string list" where
  "after_separators [] = []"
| "after_separators (c # cs) =
     (if c = CHR ''/'' then cs # after_separators cs else after_separators cs)"

text \<open>Modelled from the spec: whether one rule matches a path. A path that ends in the
  separator names a directory. An anchored pattern is matched from the root, any other
  pattern at any depth. The pattern matcher of \<open>pathspec\<close> is missing.\<close>

definition rule_matches :: "ignore_rule \<Rightarrow> string \<Rightarrow> bool" where
  "rule_matches r path =
     (let is_dir = (path \<noteq> [] \<and> last path = CHR ''/'');
          p = (if is_dir then butlast path else path)
      in (if dir_only r then is_dir else True) \<and>
         (if anchored r then glob_match (glob r) p
          else list_ex (glob_match (glob r)) (p # after_separators p)))"

text \<open>Modelled from the spec: \<open>matches\<close>, called \<open>spec.match_file\<close> by the lister. It
  "evaluates rules in file order": the outcome starts as included and every rule that
  matches the path overwrites it, with excluded, or with included for a negation rule.
  \<open>PathSpec.match_file\<close> of \<open>pathspec\<close> is missing.\<close>

fun matches_from :: "bool \<Rightarrow> ignore_rule list \<Rightarrow> string \<Rightarrow> bool" where
  "matches_from outcome [] path = outcome"
| "matches_from outcome (r # rs) path =
     matches_from (if rule_matches r path then \<not> negated r else outcome) rs path"

definition match_file :: "ignore_rule list \<Rightarrow> string \<Rightarrow> bool" where
  "match_file rules path = matches_from False rules path"

section \<open>The lister\<close>

text \<open>The lines of a text file, without their line terminators.\<close>

fun lines_from :: "string \<Rightarrow> string \<Rightarrow> string list" where
  "lines_from cur [] = (if cur = [] then [] else [cur])"
| "lines_from cur (c # cs) =
     (if c = CHR 0x0A then cur # lines_from [] cs else lines_from (cur @ [c]) cs)"

definition file_lines :: "string \<Rightarrow> string list" where
  "file_lines content = lines_from [] content"

text \<open>
  \<open>load_gitignore\<close>: the rules of \<open>.gitignore\<close> in the base path, or \<open>None\<close> when opening
  it raises \<open>FileNotFoundError\<close>. Any other exception is not handled and leaves the
  method.
\<close>

definition load_gitignore :: "config \<Rightarrow> filesystem \<Rightarrow> exn + ignore_rule list option" where
  "load_gitignore cfg fs =
     (case open_read fs (path_join (base_path cfg) ''.gitignore'') of
        Inr content \<Rightarrow> Inr (Some (from_lines (file_lines content)))
      | Inl e \<Rightarrow> if exn_class_of e = FileNotFoundError then Inr None else Inl e)"

text \<open>
  The test \<open>spec and spec.match_file(file_path)\<close>: \<open>None\<close> is false, and so is a
  \<open>PathSpec\<close> without patterns (its \<open>len\<close> is 0).
\<close>

definition skipped :: "ignore_rule list option \<Rightarrow> string \<Rightarrow> bool" where
  "skipped spec file_path =
     (case spec of
        None \<Rightarrow> False
      | Some rules \<Rightarrow> rules \<noteq> [] \<and> match_file rules file_path)"

text \<open>The inner loop of \<open>list_files\<close> over the files of one directory.\<close>

fun yield_files :: "ignore_rule list option \<Rightarrow> string \<Rightarrow> string list \<Rightarrow> string list" where
  "yield_files spec dir [] = []"
| "yield_files spec dir (file # files) =
     (let file_path = path_join dir file
      in if skipped spec file_path then yield_files spec dir files
         else file_path # yield_files spec dir files)"

text \<open>The outer loop of \<open>list_files\<close> over the triples of \<open>os.walk\<close>.\<close>

fun yield_walk :: "ignore_rule list option \<Rightarrow> (string \<times> string list \<times> string list) list
    \<Rightarrow> string list" where
  "yield_walk spec [] = []"
| "yield_walk spec ((dir, dirs, files) # rest) =
     yield_files spec dir files @ yield_walk spec rest"

text \<open>
  The body of \<open>list_files\<close>, run to its end: the exception that leaves it, or the paths it
  yields, in order.
\<close>

definition list_files_body :: "config \<Rightarrow> filesystem \<Rightarrow> exn + string list" where
  "list_files_body cfg fs =
     (case (if use_gitignore cfg then load_gitignore cfg fs else Inr None) of
        Inl e \<Rightarrow> Inl e
      | Inr spec \<Rightarrow> Inr (yield_walk spec (os_walk (base_path cfg) (tree fs))))"

text \<open>
  \<open>list_files\<close> contains \<open>yield\<close>, so a call returns a generator object and runs nothing
  yet. \<open>Generator r\<close> is a generator whose remaining run raises (\<open>Inl\<close>) or yields the
  listed items (\<open>Inr\<close>). A \<open>for\<close> loop over it obtains these items and leaves the object
  exhausted: a later loop over the same object obtains nothing. A generator has no
  \<open>len\<close>.
\<close>

datatype generator = Generator "exn + string list"

definition list_files :: "config \<Rightarrow> filesystem \<Rightarrow> generator" where
  "list_files cfg fs = Generator (list_files_body cfg fs)"

fun iterate :: "generator \<Rightarrow> (exn + string list) \<times> generator" where
  "iterate (Generator r) = (r, Generator (Inr []))"

fun py_len :: "generator \<Rightarrow> exn + nat" where
  "py_len (Generator r) = Inl (Exn TypeError ''object of type 'generator' has no len()'')"

text \<open>\<open>read_file_content\<close>: the text of the file, or the message for any exception.\<close>

definition read_file_content :: "filesystem \<Rightarrow> string \<Rightarrow> string" where
  "read_file_content fs file_path =
     (case open_read fs file_path of
        Inr content \<Rightarrow> content
      | Inl e \<Rightarrow> ''Error reading file: '' @ exn_str e)"

text \<open>The loop of \<open>_read_files_content\<close> over the paths that its argument hands out.\<close>

fun read_loop :: "config \<Rightarrow> filesystem \<Rightarrow> string list \<Rightarrow> nat \<times> string list
    \<Rightarrow> nat \<times> string list" where
  "read_loop cfg fs [] (chars_count, contents) = (chars_count, contents)"
| "read_loop cfg fs (path # rest) (chars_count, contents) =
     (if path = output_filename cfg then read_loop cfg fs rest (chars_count, contents)
      else
        let content = read_file_content fs path
        in read_loop cfg fs rest (chars_count + length content, contents @ [content]))"

text \<open>
  \<open>_read_files_content\<close>: the character total and the contents, together with the state
  in which the loop leaves \<open>file_paths\<close>.
\<close>

definition read_files_content :: "config \<Rightarrow> filesystem \<Rightarrow> generator
    \<Rightarrow> (exn + nat \<times> string list) \<times> generator" where
  "read_files_content cfg fs file_paths =
     (case iterate file_paths of
        (Inl e, after) \<Rightarrow> (Inl e, after)
      | (Inr paths, after) \<Rightarrow> (Inr (read_loop cfg fs paths (0, [])), after))"

text \<open>The header line of one entry, \<open>f"# {path}:\n"\<close>.\<close>

definition header :: "string \<Rightarrow> string" where
  "header path = ''# '' @ path @ '':\<newline>''"

text \<open>
  The loop of \<open>generate_listing_file\<close> over \<open>enumerate(file_paths)\<close>: the strings handed to
  \<open>outfile.write\<close>, in order, and the exception that ends the loop early, if any. The
  header is written before \<open>contents[idx]\<close> is evaluated.
\<close>

fun write_entries :: "string \<Rightarrow> string list \<Rightarrow> (nat \<times> string) list
    \<Rightarrow> string list \<times> exn option" where
  "write_entries out contents [] = ([], None)"
| "write_entries out contents ((idx, path) # rest) =
     (if path = out then write_entries out contents rest
      else if idx < length contents then
        (case write_entries out contents rest of
           (chunks, e) \<Rightarrow> (header path # (contents ! idx @ ''\<newline>\<newline>'') # chunks, e))
      else ([header path], Some (Exn IndexError ''list index out of range'')))"

text \<open>
  The dictionary that \<open>generate_listing_file\<close> returns. The size is that of the written
  text, one byte for each character, divided by 1024 twice.
\<close>

record listing =
  listing_output_filename :: string
  listing_chars_count :: nat
  listing_file_size :: real
  listing_files_count :: nat

text \<open>
  One run of \<open>generate_listing_file\<close>: \<open>written\<close> is what the output file holds afterwards
  (\<open>None\<close> when the run never opened it), \<open>returned\<close> is the dictionary or the exception
  that leaves the method. The method binds \<open>file_paths\<close> to the generator of \<open>list_files\<close>
  once and uses that one object three times: as the argument of \<open>_read_files_content\<close>, in
  \<open>enumerate(file_paths)\<close> and in \<open>len(file_paths)\<close>. Its docstring announces "a listing
  file containing the contents of all files in the codebase that match the specified
  rules" and, as the return value, "a dictionary containing metadata about the generated
  listing file".
\<close>

record run =
  written :: "string list option"
  returned :: "exn + listing"

definition generate_listing_file :: "config \<Rightarrow> filesystem \<Rightarrow> run" where
  "generate_listing_file cfg fs =
     (let file_paths = list_files cfg fs
      in case read_files_content cfg fs file_paths of
           (Inl e, file_paths1) \<Rightarrow> \<lparr>written = None, returned = Inl e\<rparr>
         | (Inr (chars_count, contents), file_paths1) \<Rightarrow>
             (case open_write fs (output_filename cfg) of
                Some e \<Rightarrow> \<lparr>written = None, returned = Inl e\<rparr>
              | None \<Rightarrow>
                  (case iterate file_paths1 of
                     (Inl e, file_paths2) \<Rightarrow> \<lparr>written = Some [], returned = Inl e\<rparr>
                   | (Inr paths, file_paths2) \<Rightarrow>
                       (case write_entries (output_filename cfg) contents (enumerate 0 paths) of
                          (chunks, Some e) \<Rightarrow> \<lparr>written = Some chunks, returned = Inl e\<rparr>
                        | (chunks, None) \<Rightarrow>
                            (case py_len file_paths2 of
                               Inl e \<Rightarrow> \<lparr>written = Some chunks, returned = Inl e\<rparr>
                             | Inr n \<Rightarrow>
                                 \<lparr>written = Some chunks,
                                  returned = Inr
                                    \<lparr>listing_output_filename = output_filename cfg,
                                     listing_chars_count = chars_count,
                                     listing_file_size =
                                       real (length (concat chunks)) / 1024 / 1024,
                                     listing_files_count = n\<rparr>\<rparr>)))))"

section \<open>Example directories\<close>

text \<open>
  A root \<open>proj\<close> that holds \<open>a.txt\<close> with the text \<open>hello\<close>, \<open>b.log\<close>, and a \<open>.gitignore\<close>
  with the single pattern \<open>*.log\<close>.
\<close>

text \<open>The way an error message shows a file name: between apostrophes.\<close>

definition quoted :: "string \<Rightarrow> string" where
  "quoted p = [CHR 0x27] @ p @ [CHR 0x27]"

definition no_such_file :: "string \<Rightarrow> exn" where
  "no_such_file p =
     Exn FileNotFoundError (''[Errno 2] No such file or directory: '' @ quoted p)"

definition permission_denied :: "string \<Rightarrow> exn" where
  "permission_denied p = Exn PermissionError (''[Errno 13] Permission denied: '' @ quoted p)"

definition scenario_fs :: filesystem where
  "scenario_fs =
     \<lparr>tree = [File ''.gitignore'', File ''a.txt'', File ''b.log''],
      open_read =
        (\<lambda>p. if p = ''proj/.gitignore'' then Inr ''*.log''
             else if p = ''proj/a.txt'' then Inr ''hello''
             else if p = ''proj/b.log'' then Inr ''started''
             else Inl (no_such_file p)),
      open_write = (\<lambda>p. None)\<rparr>"

definition scenario_cfg :: config where
  "scenario_cfg =
     \<lparr>base_path = ''proj'', use_gitignore = True, output_filename = ''listing.txt''\<rparr>"

text \<open>The same lister with ignore rules switched off.\<close>

definition unfiltered_cfg :: config where
  "unfiltered_cfg =
     \<lparr>base_path = ''proj'', use_gitignore = False, output_filename = ''listing.txt''\<rparr>"

text \<open>A root \<open>proj\<close> that holds only \<open>a.txt\<close> with the text \<open>hello\<close>, and no ignore file.\<close>

definition plain_fs :: filesystem where
  "plain_fs =
     \<lparr>tree = [File ''a.txt''],
      open_read = (\<lambda>p. if p = ''proj/a.txt'' then Inr ''hello'' else Inl (no_such_file p)),
      open_write = (\<lambda>p. None)\<rparr>"

text \<open>A root \<open>proj\<close> with an unreadable file between two readable ones, no ignore file.\<close>

definition locked_fs :: filesystem where
  "locked_fs =
     \<lparr>tree = [File ''a.txt'', File ''locked.bin'', File ''z.txt''],
      open_read =
        (\<lambda>p. if p = ''proj/a.txt'' then Inr ''hello''
             else if p = ''proj/locked.bin'' then Inl (permission_denied p)
             else if p = ''proj/z.txt'' then Inr ''bye''
             else Inl (no_such_file p)),
      open_write = (\<lambda>p. None)\<rparr>"

text \<open>A root \<open>proj\<close> with nested directories and no ignore file.\<close>

definition nested_fs :: filesystem where
  "nested_fs =
     \<lparr>tree = [File ''a.txt'', Dir ''src'' [File ''m.py'', Dir ''deep'' [File ''n.log'']]],
      open_read = (\<lambda>p. Inl (no_such_file p)),
      open_write = (\<lambda>p. None)\<rparr>"

text \<open>
  The scenario root with the same entries, enumerated in another order; every file reads
  as before.
\<close>

definition shuffled_fs :: filesystem where
  "shuffled_fs = scenario_fs\<lparr>tree := [File ''a.txt'', File ''.gitignore'', File ''b.log'']\<rparr>"

section \<open>Properties of the loops\<close>

text \<open>
  The read loop in closed form: it keeps the paths that differ from the output name, reads
  each of them, and adds the lengths.
\<close>

lemma read_loop_closed:
  "read_loop cfg fs paths (chars_count, contents) =
     (chars_count
        + sum_list (map (\<lambda>p. length (read_file_content fs p))
            (filter (\<lambda>p. p \<noteq> output_filename cfg) paths)),
      contents @ map (read_file_content fs) (filter (\<lambda>p. p \<noteq> output_filename cfg) paths))"
  by (induction paths arbitrary: chars_count contents) (simp_all add: Let_def)

text \<open>
  In the read loop a path whose read fails contributes the diagnostic string and its
  length, and the paths before and after it are processed as they are without it.
\<close>

lemma read_loop_substitutes_failure:
  assumes "open_read fs p = Inl e" and "p \<noteq> output_filename cfg"
  shows "read_file_content fs p = ''Error reading file: '' @ exn_str e \<and>
    read_files_content cfg fs (Generator (Inr (before @ p # rest))) =
      (Inr (fst (read_loop cfg fs before (0, []))
              + length (''Error reading file: '' @ exn_str e)
              + fst (read_loop cfg fs rest (0, [])),
            snd (read_loop cfg fs before (0, []))
              @ (''Error reading file: '' @ exn_str e)
              # snd (read_loop cfg fs rest (0, []))),
       Generator (Inr [])) \<and>
    (\<forall>q s. open_read fs q = Inr s \<and> q \<noteq> output_filename cfg \<longrightarrow>
       read_files_content cfg fs (Generator (Inr (before @ q # rest))) =
         (Inr (fst (read_loop cfg fs before (0, [])) + length s
                 + fst (read_loop cfg fs rest (0, [])),
               snd (read_loop cfg fs before (0, [])) @ s # snd (read_loop cfg fs rest (0, []))),
          Generator (Inr [])))"
proof -
  have diag: "read_file_content fs p = ''Error reading file: '' @ exn_str e"
    using assms(1) by (simp add: read_file_content_def)
  have step: "read_files_content cfg fs (Generator (Inr (before @ q # rest))) =
      (Inr (fst (read_loop cfg fs before (0, [])) + length (read_file_content fs q)
              + fst (read_loop cfg fs rest (0, [])),
            snd (read_loop cfg fs before (0, [])) @ read_file_content fs q
              # snd (read_loop cfg fs rest (0, []))),
       Generator (Inr []))" if "q \<noteq> output_filename cfg" for q
    using that by (simp add: read_files_content_def read_loop_closed)
  have ok: "read_file_content fs q = s" if "open_read fs q = Inr s" for q s
    using that by (simp add: read_file_content_def)
  show ?thesis
    using diag step [OF assms(2)] step ok by auto
qed

lemma header_inject: "header p = header q \<longleftrightarrow> p = q"
  by (simp add: header_def)

text \<open>A body chunk ends in two line feeds, a header in a colon and one line feed.\<close>

lemma body_not_header: "c @ ''\<newline>\<newline>'' \<noteq> header p"
proof
  assume "c @ ''\<newline>\<newline>'' = header p"
  then have "(c @ [CHR 0x0A]) @ [CHR 0x0A] = (''# '' @ p @ '':'') @ [CHR 0x0A]"
    by (simp add: header_def)
  then have "c @ [CHR 0x0A] = ''# '' @ p @ '':''"
    by (simp only: append1_eq_conv)
  then have "last (c @ [CHR 0x0A]) = last (''# '' @ p @ '':'')" by simp
  then show False by simp
qed

lemma header_not_body: "header p \<noteq> c @ ''\<newline>\<newline>''"
  using body_not_header [of c p] by (rule not_sym)

lemma write_entries_no_header:
  "header out \<notin> set (fst (write_entries out contents items))"
  by (induction out contents items rule: write_entries.induct)
     (auto simp: header_inject header_not_body split: prod.splits)

text \<open>
  The second loop of \<open>generate_listing_file\<close> runs over the generator that the first loop
  has exhausted, and \<open>len\<close> is applied to that generator.
\<close>

lemma generate_never_writes:
  "written (generate_listing_file cfg fs) = None
   \<or> written (generate_listing_file cfg fs) = Some []"
  by (auto simp: generate_listing_file_def read_files_content_def list_files_def
      split: sum.splits prod.splits option.splits)

lemma generate_never_returns:
  "returned (generate_listing_file cfg fs) \<noteq> Inr r"
  by (auto simp: generate_listing_file_def read_files_content_def list_files_def
      split: sum.splits prod.splits option.splits)

section \<open>Properties of the matcher and the walk\<close>

lemma matches_from_append:
  "matches_from outcome (xs @ ys) path = matches_from (matches_from outcome xs path) ys path"
  by (induction xs arbitrary: outcome) simp_all

lemma matches_from_no_match:
  "list_all (\<lambda>r. \<not> rule_matches r path) rules \<Longrightarrow> matches_from outcome rules path = outcome"
  by (induction rules arbitrary: outcome) simp_all

lemma yield_files_None: "yield_files None dir files = map (path_join dir) files"
  by (induction files) (simp_all add: skipped_def)

lemma yield_walk_append:
  "yield_walk spec (xs @ ys) = yield_walk spec xs @ yield_walk spec ys"
  by (induction xs) auto

lemma set_file_names: "set (file_names entries) = {n. File n \<in> set entries}"
  by (induction entries rule: file_names.induct) auto

lemma file_under_unfold:
  "file_under dir entries p \<longleftrightarrow>
     (\<exists>n. File n \<in> set entries \<and> p = path_join dir n) \<or>
     (\<exists>d sub. Dir d sub \<in> set entries \<and> file_under (path_join dir d) sub p)"
  by (subst file_under.simps) auto

text \<open>Without rules the walk yields exactly the files below the directory.\<close>

lemma walk_yields_files:
  "set (yield_walk None (os_walk dir entries)) = {p. file_under dir entries p}"
  "set (yield_walk None (walk_subdirs dir entries)) =
     {p. \<exists>d sub. Dir d sub \<in> set entries \<and> file_under (path_join dir d) sub p}"
proof (induction dir entries and dir entries rule: os_walk_walk_subdirs.induct)
  case (1 dir entries)
  have "{p. file_under dir entries p} =
      path_join dir ` {n. File n \<in> set entries} \<union>
      {p. \<exists>d sub. Dir d sub \<in> set entries \<and> file_under (path_join dir d) sub p}"
    by (subst file_under_unfold) auto
  with 1 show ?case
    by (simp add: yield_files_None set_file_names)
next
  case (2 dir)
  show ?case by simp
next
  case (3 dir n rest)
  then show ?case by auto
next
  case (4 dir n sub rest)
  then show ?case by (auto simp: yield_walk_append)
qed

text \<open>The rules only remove paths from the walk; the order of the rest is kept.\<close>

lemma yield_files_filter:
  "yield_files spec dir files
     = filter (\<lambda>p. \<not> skipped spec p) (yield_files None dir files)"
  by (induction files) (simp_all add: Let_def skipped_def)

lemma yield_walk_filter:
  "yield_walk spec triples = filter (\<lambda>p. \<not> skipped spec p) (yield_walk None triples)"
proof (induction triples)
  case Nil
  show ?case by simp
next
  case (Cons t triples)
  obtain dir dirs files where t: "t = (dir, dirs, files)"
    by (cases t) auto
  show ?case
    unfolding t using Cons.IH yield_files_filter [of spec dir files] by simp
qed

text \<open>
  Enumerating the same entries in another order changes the order of the paths that the
  walk yields, never the paths themselves or how often each is yielded.
\<close>

lemma yield_files_closed:
  "yield_files spec dir files
     = filter (\<lambda>p. \<not> skipped spec p) (map (path_join dir) files)"
  by (induction files) (simp_all add: Let_def)

lemma walk_mset_cons:
  "mset (yield_walk spec (os_walk dir (x # xs)))
     = mset (yield_walk spec (os_walk dir [x])) + mset (yield_walk spec (os_walk dir xs))"
  by (cases x) (simp_all add: yield_files_closed yield_walk_append)

lemma same_entries_mset:
  "same_node x y \<Longrightarrow>
     mset (yield_walk spec (os_walk dir [x])) = mset (yield_walk spec (os_walk dir [y]))"
  "same_entries xs ys \<Longrightarrow>
     mset (yield_walk spec (os_walk dir xs)) = mset (yield_walk spec (os_walk dir ys))"
proof (induction x y and xs ys arbitrary: dir and dir rule: same_node_same_entries.inducts)
  case (same_file n)
  show ?case by simp
next
  case (same_dir sub sub' n)
  from same_dir.IH [of "path_join dir n"] show ?case by simp
next
  case same_nil
  show ?case by simp
next
  case (same_cons x y xs ys)
  from same_cons.IH(1) [of dir] same_cons.IH(2) [of dir] show ?case
    by (simp only: walk_mset_cons [of spec dir x xs] walk_mset_cons [of spec dir y ys])
next
  case (same_swap x y zs)
  show ?case
    by (simp only: walk_mset_cons [of spec dir x "y # zs"] walk_mset_cons [of spec dir y zs]
        walk_mset_cons [of spec dir y "x # zs"] walk_mset_cons [of spec dir x zs] ac_simps)
next
  case (same_trans xs ys zs)
  from same_trans.IH(1) [of dir] same_trans.IH(2) [of dir] show ?case by simp
qed

section \<open>The example directories, evaluated\<close>

lemma scenario_paths:
  "list_files scenario_cfg scenario_fs = Generator (Inr [''proj/.gitignore'', ''proj/a.txt''])"
proof -
  have rules: "load_gitignore scenario_cfg scenario_fs = Inr (Some (from_lines [''*.log'']))"
    by (simp add: load_gitignore_def scenario_cfg_def scenario_fs_def path_join_def
        file_lines_def)
  have m1: "\<not> skipped (Some (from_lines [''*.log''])) ''proj/.gitignore''" by code_simp
  have m2: "\<not> skipped (Some (from_lines [''*.log''])) ''proj/a.txt''" by code_simp
  have m3: "skipped (Some (from_lines [''*.log''])) ''proj/b.log''" by code_simp
  have j: "path_join ''proj'' ''.gitignore'' = ''proj/.gitignore''"
    "path_join ''proj'' ''a.txt'' = ''proj/a.txt''"
    "path_join ''proj'' ''b.log'' = ''proj/b.log''"
    by (simp_all add: path_join_def)
  have t: "tree scenario_fs = [File ''.gitignore'', File ''a.txt'', File ''b.log'']"
    "base_path scenario_cfg = ''proj''" "use_gitignore scenario_cfg"
    by (simp_all add: scenario_fs_def scenario_cfg_def)
  show ?thesis
    by (simp add: list_files_def list_files_body_def rules t j m1 m2 m3)
qed

lemma scenario_read:
  "read_files_content scenario_cfg scenario_fs (Generator (Inr [''proj/.gitignore'', ''proj/a.txt'']))
     = (Inr (10, [''*.log'', ''hello'']), Generator (Inr []))"
  by (simp add: read_files_content_def read_file_content_def scenario_cfg_def scenario_fs_def)

lemma scenario_run:
  "generate_listing_file scenario_cfg scenario_fs =
     \<lparr>written = Some [],
      returned = Inl (Exn TypeError ''object of type 'generator' has no len()'')\<rparr>"
proof -
  have w: "open_write scenario_fs (output_filename scenario_cfg) = None"
    by (simp add: scenario_fs_def)
  show ?thesis
    by (simp add: generate_listing_file_def scenario_paths scenario_read w)
qed

lemma plain_paths:
  "list_files scenario_cfg plain_fs = Generator (Inr [''proj/a.txt''])"
  by (simp add: list_files_def list_files_body_def load_gitignore_def scenario_cfg_def
      plain_fs_def no_such_file_def path_join_def skipped_def)

lemma plain_run:
  "generate_listing_file scenario_cfg plain_fs =
     \<lparr>written = Some [],
      returned = Inl (Exn TypeError ''object of type 'generator' has no len()'')\<rparr>"
proof -
  have w: "open_write plain_fs (output_filename scenario_cfg) = None"
    by (simp add: plain_fs_def)
  show ?thesis
    by (simp add: generate_listing_file_def read_files_content_def plain_paths w
        del: read_loop.simps split: prod.splits)
qed

lemma shuffled_paths:
  "list_files scenario_cfg shuffled_fs = Generator (Inr [''proj/a.txt'', ''proj/.gitignore''])"
proof -
  have rules: "load_gitignore scenario_cfg shuffled_fs = Inr (Some (from_lines [''*.log'']))"
    by (simp add: load_gitignore_def scenario_cfg_def shuffled_fs_def scenario_fs_def
        path_join_def file_lines_def)
  have m1: "\<not> skipped (Some (from_lines [''*.log''])) ''proj/.gitignore''" by code_simp
  have m2: "\<not> skipped (Some (from_lines [''*.log''])) ''proj/a.txt''" by code_simp
  have m3: "skipped (Some (from_lines [''*.log''])) ''proj/b.log''" by code_simp
  have j: "path_join ''proj'' ''.gitignore'' = ''proj/.gitignore''"
    "path_join ''proj'' ''a.txt'' = ''proj/a.txt''"
    "path_join ''proj'' ''b.log'' = ''proj/b.log''"
    by (simp_all add: path_join_def)
  have t: "tree shuffled_fs = [File ''a.txt'', File ''.gitignore'', File ''b.log'']"
    "base_path scenario_cfg = ''proj''" "use_gitignore scenario_cfg"
    by (simp_all add: shuffled_fs_def scenario_cfg_def)
  show ?thesis
    by (simp add: list_files_def list_files_body_def rules t j m1 m2 m3)
qed

lemma shuffled_same_entries: "same_entries (tree scenario_fs) (tree shuffled_fs)"
  by (simp add: scenario_fs_def shuffled_fs_def same_swap)

lemma locked_paths:
  "list_files scenario_cfg locked_fs =
     Generator (Inr [''proj/a.txt'', ''proj/locked.bin'', ''proj/z.txt''])"
  by (simp add: list_files_def list_files_body_def load_gitignore_def scenario_cfg_def
      locked_fs_def no_such_file_def path_join_def skipped_def)

lemma locked_read:
  "read_files_content scenario_cfg locked_fs
       (Generator (Inr [''proj/a.txt'', ''proj/locked.bin'', ''proj/z.txt''])) =
     (Inr (75, [''hello'',
                ''Error reading file: [Errno 13] Permission denied: ''
                  @ quoted ''proj/locked.bin'',
                ''bye'']),
      Generator (Inr []))"
  by (simp add: read_files_content_def read_file_content_def scenario_cfg_def locked_fs_def
      permission_denied_def quoted_def)

lemma locked_run:
  "generate_listing_file scenario_cfg locked_fs =
     \<lparr>written = Some [],
      returned = Inl (Exn TypeError ''object of type 'generator' has no len()'')\<rparr>"
proof -
  have w: "open_write locked_fs (output_filename scenario_cfg) = None"
    by (simp add: locked_fs_def)
  show ?thesis
    by (simp add: generate_listing_file_def locked_paths locked_read w)
qed

section \<open>Properties stated by the specification\<close>

text \<open>
  C1. For every rule list and every path, ignore matching is last-match-wins. A path that
  no rule matches is included (the matcher answers no). When a rule matches the path and
  no later rule does, that rule alone decides, whatever the earlier rules say: the path is
  excluded, unless the rule is a negation rule, and then it is included. For the rules
  \<open>*.log\<close>, \<open>!keep.log\<close> the path \<open>keep.log\<close> is included and \<open>other.log\<close> is excluded.
  The matcher is the one modelled from the specification.
\<close>

theorem last_match_wins:
  "(list_all (\<lambda>q. \<not> rule_matches q path) rules \<longrightarrow> \<not> match_file rules path) \<and>
   (rule_matches r path \<and> list_all (\<lambda>q. \<not> rule_matches q path) later \<longrightarrow>
      match_file (earlier @ r # later) path = (\<not> negated r)) \<and>
   \<not> match_file (from_lines [''*.log'', ''!keep.log'']) ''keep.log'' \<and>
   match_file (from_lines [''*.log'', ''!keep.log'']) ''other.log''"
proof (intro conjI impI)
  assume "list_all (\<lambda>q. \<not> rule_matches q path) rules"
  then show "\<not> match_file rules path"
    by (simp add: match_file_def matches_from_no_match)
next
  assume "rule_matches r path \<and> list_all (\<lambda>q. \<not> rule_matches q path) later"
  then show "match_file (earlier @ r # later) path = (\<not> negated r)"
    by (simp add: match_file_def matches_from_append matches_from_no_match)
next
  show "\<not> match_file (from_lines [''*.log'', ''!keep.log'']) ''keep.log''"
    by code_simp
next
  show "match_file (from_lines [''*.log'', ''!keep.log'']) ''other.log''"
    by code_simp
qed

theorem last_match_wins_witness:
  "\<not> match_file (from_lines [''*.txt'', ''/build'']) ''keep.log'' \<and>
   match_file (from_lines [''*.log''] @
       \<lparr>negated = True, dir_only = False, anchored = False, glob = tokenize ''keep.log''\<rparr>
       # from_lines [''*.txt'']) ''keep.log''
     = (\<not> negated
       \<lparr>negated = True, dir_only = False, anchored = False, glob = tokenize ''keep.log''\<rparr>)"
proof -
  let ?r = "\<lparr>negated = True, dir_only = False, anchored = False, glob = tokenize ''keep.log''\<rparr>"
  have a: "list_all (\<lambda>q. \<not> rule_matches q ''keep.log'') (from_lines [''*.txt'', ''/build''])"
    by code_simp
  have b: "rule_matches ?r ''keep.log''"
    by code_simp
  have c: "list_all (\<lambda>q. \<not> rule_matches q ''keep.log'') (from_lines [''*.txt''])"
    by code_simp
  from a b c
    last_match_wins [of "''keep.log''" "from_lines [''*.txt'', ''/build'']" ?r
      "from_lines [''*.txt'']" "from_lines [''*.log'']"]
  show ?thesis by blast
qed

text \<open>
  C2. The specification says that the \<open>chars_count\<close> of the returned result equals the sum
  of the lengths of the content strings written to the output file. On the root that holds
  only \<open>a.txt\<close> with the text \<open>hello\<close>, the character total computed is 5, nothing is
  written to the output file, and the run ends with a \<open>TypeError\<close> instead of returning a
  result. No run returns a result.
\<close>

theorem chars_count_without_written_content:
  "fst (read_files_content scenario_cfg plain_fs (list_files scenario_cfg plain_fs))
     = Inr (5, [''hello'']) \<and>
   written (generate_listing_file scenario_cfg plain_fs) = Some [] \<and>
   returned (generate_listing_file scenario_cfg plain_fs)
     = Inl (Exn TypeError ''object of type 'generator' has no len()'') \<and>
   returned (generate_listing_file cfg fs) \<noteq> Inr r"
proof -
  have "read_files_content scenario_cfg plain_fs (Generator (Inr [''proj/a.txt'']))
      = (Inr (5, [''hello'']), Generator (Inr []))"
    by (simp add: read_files_content_def read_file_content_def scenario_cfg_def plain_fs_def)
  then show ?thesis
    using generate_never_returns [of cfg fs r]
    by (simp only: plain_paths plain_run fst_conv run.simps simp_thms not_False_eq_True)
qed

text \<open>
  C3, as the specification states it, fails on its own example. For the root with \<open>a.txt\<close>
  (\<open>hello\<close>), \<open>b.log\<close> and a \<open>.gitignore\<close> holding \<open>*.log\<close>, the run does not return
  \<open>files_count\<close> 1 and \<open>chars_count\<close> 5: it ends with a \<open>TypeError\<close>, the walker yields two
  paths (the ignore file itself and \<open>a.txt\<close>), and the character total is 10.
\<close>

theorem scenario_counts_counterexample:
  "returned (generate_listing_file scenario_cfg scenario_fs)
     = Inl (Exn TypeError ''object of type 'generator' has no len()'') \<and>
   list_files scenario_cfg scenario_fs
     = Generator (Inr [''proj/.gitignore'', ''proj/a.txt'']) \<and>
   fst (read_files_content scenario_cfg scenario_fs (list_files scenario_cfg scenario_fs))
     = Inr (10, [''*.log'', ''hello''])"
  by (simp add: scenario_run scenario_paths scenario_read)

text \<open>
  C3, as amended. The number of paths that the walker yields counts the paths whose
  content read fails: the walker yields the same paths whatever the outcome of reading any
  file other than the rule source \<open>.gitignore\<close>, and for the root with the unreadable
  \<open>locked.bin\<close> it yields three paths, \<open>locked.bin\<close> among them. For the root with \<open>a.txt\<close> (\<open>hello\<close>), \<open>b.log\<close> and a
  \<open>.gitignore\<close> holding \<open>*.log\<close>, the walker yields 2 paths, \<open>.gitignore\<close> and \<open>a.txt\<close>, and
  the character total computed over them is 10.
\<close>

theorem walker_counts_unreadable_files:
  "list_files cfg
       (fs\<lparr>open_read :=
          (\<lambda>p. if p = path_join (base_path cfg) ''.gitignore'' then open_read fs p
               else any p)\<rparr>)
     = list_files cfg fs \<and>
   open_read locked_fs ''proj/locked.bin'' = Inl (permission_denied ''proj/locked.bin'') \<and>
   list_files scenario_cfg locked_fs
     = Generator (Inr [''proj/a.txt'', ''proj/locked.bin'', ''proj/z.txt'']) \<and>
   list_files scenario_cfg scenario_fs
     = Generator (Inr [''proj/.gitignore'', ''proj/a.txt'']) \<and>
   map_sum id length (fst (iterate (list_files scenario_cfg scenario_fs))) = Inr 2 \<and>
   read_files_content scenario_cfg scenario_fs (list_files scenario_cfg scenario_fs)
     = (Inr (10, [''*.log'', ''hello'']), Generator (Inr []))"
proof (intro conjI)
  show "list_files cfg
       (fs\<lparr>open_read :=
          (\<lambda>p. if p = path_join (base_path cfg) ''.gitignore'' then open_read fs p
               else any p)\<rparr>)
     = list_files cfg fs"
    by (simp add: list_files_def list_files_body_def load_gitignore_def
        del: os_walk.simps split: sum.splits)
next
  show "open_read locked_fs ''proj/locked.bin'' = Inl (permission_denied ''proj/locked.bin'')"
    by (simp add: locked_fs_def)
next
  show "list_files scenario_cfg locked_fs
     = Generator (Inr [''proj/a.txt'', ''proj/locked.bin'', ''proj/z.txt''])"
    by (rule locked_paths)
next
  show "list_files scenario_cfg scenario_fs
     = Generator (Inr [''proj/.gitignore'', ''proj/a.txt''])"
    by (rule scenario_paths)
next
  show "map_sum id length (fst (iterate (list_files scenario_cfg scenario_fs))) = Inr 2"
    by (simp add: scenario_paths)
next
  show "read_files_content scenario_cfg scenario_fs (list_files scenario_cfg scenario_fs)
     = (Inr (10, [''*.log'', ''hello'']), Generator (Inr []))"
    by (simp only: scenario_paths scenario_read)
qed

text \<open>
  C4. The output file of a run never holds an entry for the output file itself: no header
  chunk written names it, under any spelling \<open>p\<close> of its path. The exclusion is an exact
  comparison with the configured output name: the write loop never writes the header of
  that name, for any sequence of paths, and the read loop skips exactly the paths equal
  to it.
\<close>

theorem output_never_lists_itself:
  "(case written (generate_listing_file cfg fs) of
      None \<Rightarrow> True
    | Some chunks \<Rightarrow> header p \<notin> set chunks) \<and>
   header (output_filename cfg)
     \<notin> set (fst (write_entries (output_filename cfg) contents items)) \<and>
   read_loop cfg fs paths (chars_count, contents) =
     read_loop cfg fs (filter (\<lambda>q. q \<noteq> output_filename cfg) paths) (chars_count, contents)"
proof (intro conjI)
  show "case written (generate_listing_file cfg fs) of
      None \<Rightarrow> True
    | Some chunks \<Rightarrow> header p \<notin> set chunks"
    using generate_never_writes [of cfg fs] by auto
next
  show "header (output_filename cfg)
     \<notin> set (fst (write_entries (output_filename cfg) contents items))"
    by (rule write_entries_no_header)
next
  show "read_loop cfg fs paths (chars_count, contents) =
     read_loop cfg fs (filter (\<lambda>q. q \<noteq> output_filename cfg) paths) (chars_count, contents)"
    by (simp add: read_loop_closed)
qed

text \<open>
  C5. The specification says that a path whose read fails does not abort the run and that
  the body of its block is the diagnostic string. On the root with the unreadable
  \<open>locked.bin\<close> between \<open>a.txt\<close> and \<open>z.txt\<close>, \<open>read_file_content\<close> returns the diagnostic
  string and \<open>_read_files_content\<close> counts its length (5 + 67 + 3 = 75) and goes on to
  \<open>z.txt\<close>, but the run writes no block at all and ends with a \<open>TypeError\<close>. The write loop,
  handed those paths and contents, writes the block with the diagnostic as its body.
\<close>

theorem failed_read_block_not_written:
  "read_file_content locked_fs ''proj/locked.bin''
     = ''Error reading file: [Errno 13] Permission denied: '' @ quoted ''proj/locked.bin'' \<and>
   read_files_content scenario_cfg locked_fs (list_files scenario_cfg locked_fs) =
     (Inr (75, [''hello'',
                ''Error reading file: [Errno 13] Permission denied: ''
                  @ quoted ''proj/locked.bin'',
                ''bye'']),
      Generator (Inr [])) \<and>
   written (generate_listing_file scenario_cfg locked_fs) = Some [] \<and>
   returned (generate_listing_file scenario_cfg locked_fs)
     = Inl (Exn TypeError ''object of type 'generator' has no len()'') \<and>
   fst (write_entries (output_filename scenario_cfg)
          [''hello'',
           ''Error reading file: [Errno 13] Permission denied: ''
             @ quoted ''proj/locked.bin'',
           ''bye'']
          (enumerate 0 [''proj/a.txt'', ''proj/locked.bin'', ''proj/z.txt'']))
     = [''# proj/a.txt:\<newline>'', ''hello\<newline>\<newline>'',
        ''# proj/locked.bin:\<newline>'',
        (''Error reading file: [Errno 13] Permission denied: ''
           @ quoted ''proj/locked.bin'') @ ''\<newline>\<newline>'',
        ''# proj/z.txt:\<newline>'', ''bye\<newline>\<newline>'']"
proof -
  have r: "read_file_content locked_fs ''proj/locked.bin''
     = ''Error reading file: [Errno 13] Permission denied: '' @ quoted ''proj/locked.bin''"
    by (simp add: read_file_content_def locked_fs_def permission_denied_def)
  have e: "fst (write_entries (output_filename scenario_cfg)
          [''hello'',
           ''Error reading file: [Errno 13] Permission denied: ''
             @ quoted ''proj/locked.bin'',
           ''bye'']
          (enumerate 0 [''proj/a.txt'', ''proj/locked.bin'', ''proj/z.txt'']))
     = [''# proj/a.txt:\<newline>'', ''hello\<newline>\<newline>'',
        ''# proj/locked.bin:\<newline>'',
        (''Error reading file: [Errno 13] Permission denied: ''
           @ quoted ''proj/locked.bin'') @ ''\<newline>\<newline>'',
        ''# proj/z.txt:\<newline>'', ''bye\<newline>\<newline>'']"
    by (simp add: scenario_cfg_def header_def)
  show ?thesis
    using r e by (simp only: locked_paths locked_read locked_run run.simps simp_thms)
qed

text \<open>
  C6. The specification says that the output file holds one block for every included file:
  a header line, the content and a blank line. On the root that holds only \<open>a.txt\<close> with
  the text \<open>hello\<close>, the walker yields \<open>proj/a.txt\<close> and the output file is left empty;
  no run writes a block. The write loop, handed that path and its content, writes the
  block that the specification describes.
\<close>

theorem listed_file_has_no_block:
  "list_files scenario_cfg plain_fs = Generator (Inr [''proj/a.txt'']) \<and>
   written (generate_listing_file scenario_cfg plain_fs) = Some [] \<and>
   fst (write_entries (output_filename scenario_cfg) [''hello'']
          (enumerate 0 [''proj/a.txt'']))
     = [''# proj/a.txt:\<newline>'', ''hello\<newline>\<newline>''] \<and>
   (written (generate_listing_file cfg fs) = None
    \<or> written (generate_listing_file cfg fs) = Some [])"
proof -
  have "fst (write_entries (output_filename scenario_cfg) [''hello'']
          (enumerate 0 [''proj/a.txt'']))
     = [''# proj/a.txt:\<newline>'', ''hello\<newline>\<newline>'']"
    by (simp add: scenario_cfg_def header_def)
  then show ?thesis
    using generate_never_writes [of cfg fs]
    by (simp only: plain_paths plain_run run.simps simp_thms)
qed

text \<open>
  C7. When opening \<open>.gitignore\<close> in the base path raises \<open>FileNotFoundError\<close>,
  \<open>load_gitignore\<close> raises nothing and returns \<open>None\<close>, which skips no path, and
  \<open>list_files\<close> yields exactly the files under the root.
\<close>

theorem missing_gitignore_includes_everything:
  assumes "open_read fs (path_join (base_path cfg) ''.gitignore'') = Inl e"
    and "exn_class_of e = FileNotFoundError"
  shows "load_gitignore cfg fs = Inr None \<and> \<not> skipped None path \<and>
    list_files cfg fs =
      Generator (Inr (yield_walk None (os_walk (base_path cfg) (tree fs)))) \<and>
    set (yield_walk None (os_walk (base_path cfg) (tree fs)))
      = {p. file_under (base_path cfg) (tree fs) p}"
  using assms
  by (simp add: load_gitignore_def skipped_def list_files_def list_files_body_def
      walk_yields_files(1) del: os_walk.simps)

theorem missing_gitignore_includes_everything_witness:
  "load_gitignore scenario_cfg nested_fs = Inr None \<and>
   list_files scenario_cfg nested_fs =
     Generator (Inr [''proj/a.txt'', ''proj/src/m.py'', ''proj/src/deep/n.log'']) \<and>
   {p. file_under ''proj'' (tree nested_fs) p}
     = {''proj/a.txt'', ''proj/src/m.py'', ''proj/src/deep/n.log''}"
proof -
  have h1: "open_read nested_fs (path_join (base_path scenario_cfg) ''.gitignore'')
      = Inl (no_such_file ''proj/.gitignore'')"
    by (simp add: nested_fs_def scenario_cfg_def path_join_def)
  have h2: "exn_class_of (no_such_file ''proj/.gitignore'') = FileNotFoundError"
    by (simp add: no_such_file_def)
  have w: "yield_walk None (os_walk ''proj'' (tree nested_fs))
      = [''proj/a.txt'', ''proj/src/m.py'', ''proj/src/deep/n.log'']"
    by (simp add: nested_fs_def path_join_def skipped_def)
  have b: "base_path scenario_cfg = ''proj''"
    by (simp add: scenario_cfg_def)
  note inst = missing_gitignore_includes_everything [OF h1 h2, where path = "[]",
      unfolded w b]
  show ?thesis
    using inst by (simp del: os_walk.simps)
qed

text \<open>
  C8, as the specification states it, fails: the walker visits the children of a directory
  in the order in which \<open>os.scandir\<close> enumerates them and does not sort. The scenario root
  with the same entries enumerated in another order, every file reading as before, yields
  another sequence.
\<close>

theorem enumeration_order_counterexample:
  "same_entries (tree scenario_fs) (tree shuffled_fs) \<and>
   open_read shuffled_fs = open_read scenario_fs \<and>
   list_files scenario_cfg scenario_fs
     = Generator (Inr [''proj/.gitignore'', ''proj/a.txt'']) \<and>
   list_files scenario_cfg shuffled_fs
     = Generator (Inr [''proj/a.txt'', ''proj/.gitignore'']) \<and>
   list_files scenario_cfg shuffled_fs \<noteq> list_files scenario_cfg scenario_fs"
  by (simp add: shuffled_same_entries scenario_paths shuffled_paths)
     (simp add: shuffled_fs_def)

text \<open>
  C8, as amended. For a fixed rule source, two walks over the same entries yield the same
  paths, each of them equally often (or raise the same exception), in whatever order the
  directories are enumerated; they yield the identical sequence when every directory is
  enumerated in the same order both times.
\<close>

theorem walk_twice_same_paths:
  "(same_entries (tree fs) (tree fs') \<and> open_read fs' = open_read fs \<longrightarrow>
      map_sum id mset (fst (iterate (list_files cfg fs')))
        = map_sum id mset (fst (iterate (list_files cfg fs)))) \<and>
   (tree fs' = tree fs \<and> open_read fs' = open_read fs \<longrightarrow>
      fst (iterate (list_files cfg fs')) = fst (iterate (list_files cfg fs)))"
proof (intro conjI impI)
  assume a: "same_entries (tree fs) (tree fs') \<and> open_read fs' = open_read fs"
  then have g: "load_gitignore cfg fs' = load_gitignore cfg fs"
    by (simp add: load_gitignore_def)
  from a have m: "mset (yield_walk spec (os_walk (base_path cfg) (tree fs')))
      = mset (yield_walk spec (os_walk (base_path cfg) (tree fs)))" for spec
    using same_entries_mset(2) [of "tree fs" "tree fs'" spec "base_path cfg"] by simp
  show "map_sum id mset (fst (iterate (list_files cfg fs')))
        = map_sum id mset (fst (iterate (list_files cfg fs)))"
    using m by (simp add: list_files_def list_files_body_def g del: os_walk.simps
        split: sum.splits)
next
  assume a: "tree fs' = tree fs \<and> open_read fs' = open_read fs"
  then have g: "load_gitignore cfg fs' = load_gitignore cfg fs"
    by (simp add: load_gitignore_def)
  show "fst (iterate (list_files cfg fs')) = fst (iterate (list_files cfg fs))"
    using a by (simp add: list_files_def list_files_body_def g del: os_walk.simps
        split: sum.splits)
qed

theorem walk_twice_same_paths_witness:
  "map_sum id mset (fst (iterate (list_files scenario_cfg shuffled_fs)))
     = Inr {#''proj/.gitignore'', ''proj/a.txt''#}"
proof -
  have h: "same_entries (tree scenario_fs) (tree shuffled_fs)
      \<and> open_read shuffled_fs = open_read scenario_fs"
    by (simp add: shuffled_same_entries) (simp add: shuffled_fs_def)
  from walk_twice_same_paths [of scenario_fs shuffled_fs scenario_cfg] h
  have "map_sum id mset (fst (iterate (list_files scenario_cfg shuffled_fs)))
      = map_sum id mset (fst (iterate (list_files scenario_cfg scenario_fs)))"
    by blast
  then show ?thesis
    by (simp add: scenario_paths)
qed

text \<open>
  C9. With \<open>use_gitignore\<close> false, \<open>list_files\<close> yields exactly the files under the base
  path and reads no file to decide it: a \<open>.gitignore\<close> whose rules match some of the files
  changes nothing.
\<close>

theorem use_gitignore_off_lists_everything:
  assumes "\<not> use_gitignore cfg"
  shows "list_files cfg fs =
      Generator (Inr (yield_walk None (os_walk (base_path cfg) (tree fs)))) \<and>
    set (yield_walk None (os_walk (base_path cfg) (tree fs)))
      = {p. file_under (base_path cfg) (tree fs) p} \<and>
    list_files cfg (fs\<lparr>open_read := any\<rparr>) = list_files cfg fs"
  using assms
  by (simp add: list_files_def list_files_body_def walk_yields_files(1) del: os_walk.simps)

theorem use_gitignore_off_lists_everything_witness:
  "list_files unfiltered_cfg scenario_fs =
     Generator (Inr [''proj/.gitignore'', ''proj/a.txt'', ''proj/b.log'']) \<and>
   match_file (from_lines (file_lines ''*.log'')) ''proj/b.log''"
proof -
  have h: "\<not> use_gitignore unfiltered_cfg"
    by (simp add: unfiltered_cfg_def)
  have w: "yield_walk None (os_walk (base_path unfiltered_cfg) (tree scenario_fs))
      = [''proj/.gitignore'', ''proj/a.txt'', ''proj/b.log'']"
    by (simp add: unfiltered_cfg_def scenario_fs_def path_join_def skipped_def)
  have m: "match_file (from_lines (file_lines ''*.log'')) ''proj/b.log''"
    by code_simp
  note inst = use_gitignore_off_lists_everything [OF h, of scenario_fs, unfolded w]
  show ?thesis
    using inst m by (simp del: os_walk.simps)
qed

text \<open>
  C10. \<open>read_file_content\<close> returns a string for every path: the text of the file when
  reading succeeds, and otherwise, for an exception of any class, the string that begins
  with \<open>Error reading file: \<close> and continues with the exception's message. No exception
  leaves the method.
\<close>

theorem read_file_content_total:
  "(\<exists>content. open_read fs file_path = Inr content \<and> read_file_content fs file_path = content)
   \<or> (\<exists>c m. open_read fs file_path = Inl (Exn c m)
        \<and> read_file_content fs file_path = ''Error reading file: '' @ m)"
proof (cases "open_read fs file_path")
  case (Inl e)
  then show ?thesis by (cases e) (simp add: read_file_content_def)
next
  case (Inr content)
  then show ?thesis by (simp add: read_file_content_def)
qed

end
